theory Spec2Isabelle
  imports Complex_Main "HOL-Library.AList"
begin

section \<open>Common: exceptions and handler outcomes\<close>

text \<open>
  Both services throw \<^verbatim>\<open>new Error('Not connected to NATS')\<close> from their publishing
  methods when \<^verbatim>\<open>this.nc\<close> is null. A call either returns, leaving a state, or throws,
  also leaving a state (whatever was mutated before the throw stays mutated).
\<close>

datatype error = NotConnected | TypeError

datatype 's outcome = Returned 's | Threw error 's

fun stateOf :: "'s outcome \<Rightarrow> 's" where
  "stateOf (Returned s) = s"
| "stateOf (Threw e s) = s"

fun andThen :: "'s outcome \<Rightarrow> ('s \<Rightarrow> 's outcome) \<Rightarrow> 's outcome" where
  "andThen (Returned s) f = f s"
| "andThen (Threw e s) f = Threw e s"

section \<open>Orders service (services/orders-service/src/index.ts)\<close>

text \<open>
  Several classes of the source share field names (\<^verbatim>\<open>orderId\<close>, \<^verbatim>\<open>items\<close>, ...). The
  fields of \<^verbatim>\<open>Order\<close> keep their names; the fields of the message classes carry the
  message's name as a prefix. A JavaScript \<^verbatim>\<open>number\<close> that is only stored is a
  \<^typ>\<open>real\<close>; a \<^verbatim>\<open>Date\<close> is its epoch time in milliseconds.
\<close>

datatype OrderStatus = Pending | Confirmed | Shipped | Delivered | Completed | Cancelled

record OrderItem =
  item_itemId :: string
  item_quantity :: int
  item_price :: real

record Order =
  orderId :: string
  userId :: string
  totalAmount :: real
  items :: "OrderItem list"
  status :: OrderStatus
  createdAt :: nat

record OrderCreated =
  created_orderId :: string
  created_userId :: string
  created_totalAmount :: real
  created_items :: "OrderItem list"

record OrderCancelled =
  cancelled_orderId :: string
  cancelled_reason :: string

record OrderCompleted =
  completed_orderId :: string
  completed_completionTime :: string

record PaymentFailed =
  failed_paymentId :: string
  failed_orderId :: string
  failed_failureReason :: string

record ShipmentDelivered =
  delivered_orderId :: string
  delivered_shipmentId :: string
  delivered_deliveryTime :: string

text \<open>What \<^verbatim>\<open>nc.publish(subject, jc.encode(data))\<close> puts on the bus.\<close>

datatype OrdersPayload =
  PayloadOrderCancelled OrderCancelled
| PayloadOrderCompleted OrderCompleted

text \<open>
  The fields of \<^verbatim>\<open>class OrdersService\<close> that the handlers read or write: \<open>nc\<close> is
  whether the connection is non-null, \<open>orders\<close> the \<^verbatim>\<open>Map<string, Order>\<close>, and
  \<open>published\<close> the messages handed to \<^verbatim>\<open>nc.publish\<close> so far, oldest first.
\<close>

record OrdersService =
  nc :: bool
  orders :: "string \<rightharpoonup> Order"
  published :: "(string \<times> OrdersPayload) list"

definition sendOrderCancelled :: "OrderCancelled \<Rightarrow> OrdersService \<Rightarrow> OrdersService outcome" where
  "sendOrderCancelled data s =
     (if \<not> nc s then Threw NotConnected s
      else
        let s1 = s\<lparr>published := published s @ [(''order.cancelled'', PayloadOrderCancelled data)]\<rparr>
        in case orders s1 (cancelled_orderId data) of
             None \<Rightarrow> Returned s1
           | Some order \<Rightarrow>
               Returned (s1\<lparr>orders := (orders s1)(cancelled_orderId data \<mapsto> order\<lparr>status := Cancelled\<rparr>)\<rparr>))"

definition sendOrderCompleted :: "OrderCompleted \<Rightarrow> OrdersService \<Rightarrow> OrdersService outcome" where
  "sendOrderCompleted data s =
     (if \<not> nc s then Threw NotConnected s
      else
        let s1 = s\<lparr>published := published s @ [(''order.completed'', PayloadOrderCompleted data)]\<rparr>
        in case orders s1 (completed_orderId data) of
             None \<Rightarrow> Returned s1
           | Some order \<Rightarrow>
               Returned (s1\<lparr>orders := (orders s1)(completed_orderId data \<mapsto> order\<lparr>status := Completed\<rparr>)\<rparr>))"

text \<open>\<open>now\<close> is the value of \<^verbatim>\<open>new Date()\<close> read by the handler.\<close>

definition handleOrderCreated :: "nat \<Rightarrow> OrderCreated \<Rightarrow> OrdersService \<Rightarrow> OrdersService outcome" where
  "handleOrderCreated now data s =
     (if created_orderId data \<in> dom (orders s) then Returned s
      else Returned (s\<lparr>orders := (orders s)(created_orderId data \<mapsto>
             \<lparr>orderId = created_orderId data,
              userId = created_userId data,
              totalAmount = created_totalAmount data,
              items = created_items data,
              status = Pending,
              createdAt = now\<rparr>)\<rparr>))"

definition handlePaymentFailed :: "PaymentFailed \<Rightarrow> OrdersService \<Rightarrow> OrdersService outcome" where
  "handlePaymentFailed data s =
     (case orders s (failed_orderId data) of
        None \<Rightarrow> Returned s
      | Some order \<Rightarrow>
          if status order = Cancelled then Returned s
          else sendOrderCancelled
                 \<lparr>cancelled_orderId = failed_orderId data,
                  cancelled_reason = ''Payment failed: '' @ failed_failureReason data\<rparr> s)"

text \<open>\<open>nowISO\<close> is the value of \<^verbatim>\<open>new Date().toISOString()\<close> read by the handler.\<close>

definition handleShipmentDelivered :: "string \<Rightarrow> ShipmentDelivered \<Rightarrow> OrdersService \<Rightarrow> OrdersService outcome" where
  "handleShipmentDelivered nowISO data s =
     (case orders s (delivered_orderId data) of
        None \<Rightarrow> Returned s
      | Some order \<Rightarrow>
          if status order = Cancelled then Returned s
          else if status order = Completed then Returned s
          else sendOrderCompleted
                 \<lparr>completed_orderId = delivered_orderId data,
                  completed_completionTime = nowISO\<rparr> s)"

definition cancelOrder :: "string \<Rightarrow> string \<Rightarrow> OrdersService \<Rightarrow> OrdersService outcome" where
  "cancelOrder oid reason s =
     (case orders s oid of
        None \<Rightarrow> Returned s
      | Some order \<Rightarrow>
          if status order = Cancelled then Returned s
          else if status order = Completed then Returned s
          else sendOrderCancelled \<lparr>cancelled_orderId = oid, cancelled_reason = reason\<rparr> s)"

definition getOrder :: "string \<Rightarrow> OrdersService \<Rightarrow> Order option" where
  "getOrder oid s = orders s oid"

text \<open>
  The three loops of \<^verbatim>\<open>setupSubscriptions\<close>: each delivered message is decoded and handed
  to its handler inside \<^verbatim>\<open>try { ... } catch (err) { console.error(...) }\<close>, so a throwing
  handler leaves the state it had reached and the loop goes on. A message comes with the
  clock value its handler reads.
\<close>

datatype OrdersMessage =
  MsgOrderCreated nat OrderCreated
| MsgPaymentFailed PaymentFailed
| MsgShipmentDelivered string ShipmentDelivered

fun processMessage :: "OrdersService \<Rightarrow> OrdersMessage \<Rightarrow> OrdersService" where
  "processMessage s (MsgOrderCreated now data) = stateOf (handleOrderCreated now data s)"
| "processMessage s (MsgPaymentFailed data) = stateOf (handlePaymentFailed data s)"
| "processMessage s (MsgShipmentDelivered nowISO data) = stateOf (handleShipmentDelivered nowISO data s)"

definition processAll :: "OrdersService \<Rightarrow> OrdersMessage list \<Rightarrow> OrdersService" where
  "processAll s msgs = foldl processMessage s msgs"

text \<open>A connected service that has seen no message yet.\<close>

definition connectedService :: OrdersService where
  "connectedService = \<lparr>nc = True, orders = Map.empty, published = []\<rparr>"

text \<open>The messages of Scenario 4 and of a delivery followed by a payment failure.\<close>

definition created3 :: OrderCreated where
  "created3 = \<lparr>created_orderId = ''ORD-3'', created_userId = ''U1'',
                created_totalAmount = 85 / 2, created_items = []\<rparr>"

definition failed3 :: PaymentFailed where
  "failed3 = \<lparr>failed_paymentId = ''PAY-3'', failed_orderId = ''ORD-3'',
               failed_failureReason = ''card declined''\<rparr>"

definition delivered3 :: ShipmentDelivered where
  "delivered3 = \<lparr>delivered_orderId = ''ORD-3'', delivered_shipmentId = ''SHP-3'',
                  delivered_deliveryTime = ''2024-01-01T10:00:00.000Z''\<rparr>"

definition order3 :: Order where
  "order3 = \<lparr>orderId = ''ORD-3'', userId = ''U1'', totalAmount = 85 / 2, items = [],
              status = Pending, createdAt = 1700000000000\<rparr>"

definition pendingService :: OrdersService where
  "pendingService = \<lparr>nc = True, orders = [''ORD-3'' \<mapsto> order3], published = []\<rparr>"

section \<open>Inventory service (services/inventory-service/src/index.ts)\<close>

text \<open>
  Quantities are integers. The module-level maps \<^verbatim>\<open>inventoryStore\<close> and
  \<^verbatim>\<open>reservations\<close> and the connection of the \<^verbatim>\<open>InventoryService\<close> object make up the
  state. \<^verbatim>\<open>reservations\<close> is iterated in insertion order by the cancellation handler,
  so it is an association list: \<^const>\<open>AList.update\<close> replaces the value of a present key
  in place and appends an absent one, \<^const>\<open>AList.delete\<close> removes a key, as
  \<^verbatim>\<open>Map.set\<close> and \<^verbatim>\<open>Map.delete\<close> do. The message interfaces \<^verbatim>\<open>OrderCreated\<close> and
  \<^verbatim>\<open>OrderCancelled\<close> of this file are \<open>InventoryOrderCreated\<close> and
  \<open>InventoryOrderCancelled\<close> here.
\<close>

record InventoryItem =
  itemId :: string
  quantity :: int

record Reservation =
  reservation_orderId :: string
  reservation_items :: "InventoryItem list"

record InventoryReserved =
  reserved_reservationId :: string
  reserved_orderId :: string
  reserved_items :: "InventoryItem list"

record InventoryReleased =
  released_reservationId :: string
  released_orderId :: string
  released_items :: "InventoryItem list"

record InventoryUpdated =
  updated_itemId :: string
  updated_newQuantity :: int

record InventoryOrderCreated =
  ordercreated_orderId :: string
  ordercreated_items :: "InventoryItem list"

record InventoryOrderCancelled =
  ordercancelled_orderId :: string
  ordercancelled_items :: "InventoryItem list"

datatype InventoryPayload =
  PayloadInventoryReserved InventoryReserved
| PayloadInventoryReleased InventoryReleased
| PayloadInventoryUpdated InventoryUpdated

record InventoryService =
  inv_nc :: bool
  inventoryStore :: "string \<rightharpoonup> int"
  reservations :: "(string \<times> Reservation) list"
  inv_published :: "(string \<times> InventoryPayload) list"

text \<open>\<^verbatim>\<open>inventoryStore.get(k) || 0\<close>: an absent key and a stored 0 both read as 0.\<close>

definition getOrZero :: "(string \<rightharpoonup> int) \<Rightarrow> string \<Rightarrow> int" where
  "getOrZero store k = (case store k of None \<Rightarrow> 0 | Some v \<Rightarrow> v)"

definition sendInventoryReserved :: "InventoryReserved \<Rightarrow> InventoryService \<Rightarrow> InventoryService outcome" where
  "sendInventoryReserved data s =
     (if \<not> inv_nc s then Threw NotConnected s
      else Returned (s\<lparr>inv_published := inv_published s @
                          [(''inventory.reserved'', PayloadInventoryReserved data)]\<rparr>))"

definition sendInventoryReleased :: "InventoryReleased \<Rightarrow> InventoryService \<Rightarrow> InventoryService outcome" where
  "sendInventoryReleased data s =
     (if \<not> inv_nc s then Threw NotConnected s
      else Returned (s\<lparr>inv_published := inv_published s @
                          [(''inventory.released'', PayloadInventoryReleased data)]\<rparr>))"

definition sendInventoryUpdated :: "InventoryUpdated \<Rightarrow> InventoryService \<Rightarrow> InventoryService outcome" where
  "sendInventoryUpdated data s =
     (if \<not> inv_nc s then Threw NotConnected s
      else Returned (s\<lparr>inv_published := inv_published s @
                          [(''inventory.updated'', PayloadInventoryUpdated data)]\<rparr>))"

fun checkInventoryAvailability :: "InventoryItem list \<Rightarrow> (string \<rightharpoonup> int) \<Rightarrow> bool" where
  "checkInventoryAvailability [] store = True"
| "checkInventoryAvailability (item # rest) store =
     (let available = getOrZero store (itemId item)
      in if available < quantity item then False
         else checkInventoryAvailability rest store)"

fun reserveInventory :: "InventoryItem list \<Rightarrow> (string \<rightharpoonup> int) \<Rightarrow> (string \<rightharpoonup> int)" where
  "reserveInventory [] store = store"
| "reserveInventory (item # rest) store =
     (let current = getOrZero store (itemId item)
      in reserveInventory rest (store(itemId item \<mapsto> current - quantity item)))"

fun releaseInventory :: "InventoryItem list \<Rightarrow> (string \<rightharpoonup> int) \<Rightarrow> (string \<rightharpoonup> int)" where
  "releaseInventory [] store = store"
| "releaseInventory (item # rest) store =
     (let current = getOrZero store (itemId item)
      in releaseInventory rest (store(itemId item \<mapsto> current + quantity item)))"

text \<open>
  The loop that follows each successful reservation or release: one
  \<^verbatim>\<open>inventory.updated\<close> message per line, carrying the stock read at that moment.
\<close>

fun sendUpdates :: "InventoryItem list \<Rightarrow> InventoryService \<Rightarrow> InventoryService outcome" where
  "sendUpdates [] s = Returned s"
| "sendUpdates (item # rest) s =
     andThen (sendInventoryUpdated
                \<lparr>updated_itemId = itemId item,
                 updated_newQuantity = getOrZero (inventoryStore s) (itemId item)\<rparr> s)
             (sendUpdates rest)"

text \<open>
  The decimal digits of a natural number, as the template literal
  \<^verbatim>\<open>`RES-${Date.now()}`\<close> renders the integer \<^verbatim>\<open>Date.now()\<close>.
\<close>

definition digitChar :: "nat \<Rightarrow> char" where
  "digitChar d = ''0123456789'' ! d"

fun numberToString :: "nat \<Rightarrow> string" where
  "numberToString n =
     (if n < 10 then [digitChar n]
      else numberToString (n div 10) @ [digitChar (n mod 10)])"

declare numberToString.simps [simp del]

definition makeReservationId :: "nat \<Rightarrow> string" where
  "makeReservationId now = ''RES-'' @ numberToString now"

text \<open>
  The handler that \<^verbatim>\<open>main\<close> passes to \<^verbatim>\<open>subscribeToOrderCreated\<close>; \<open>now\<close> is the value
  of \<^verbatim>\<open>Date.now()\<close> it reads. All its writes to the two maps happen before its first
  \<^verbatim>\<open>await\<close>.
\<close>

definition onOrderCreated :: "nat \<Rightarrow> InventoryOrderCreated \<Rightarrow> InventoryService \<Rightarrow> InventoryService outcome" where
  "onOrderCreated now data s =
     (if checkInventoryAvailability (ordercreated_items data) (inventoryStore s) then
        let s1 = s\<lparr>inventoryStore := reserveInventory (ordercreated_items data) (inventoryStore s)\<rparr>;
            reservationId = makeReservationId now;
            s2 = s1\<lparr>reservations :=
                      AList.update reservationId
                        \<lparr>reservation_orderId = ordercreated_orderId data,
                         reservation_items = ordercreated_items data\<rparr>
                        (reservations s1)\<rparr>
        in andThen (sendInventoryReserved
                      \<lparr>reserved_reservationId = reservationId,
                       reserved_orderId = ordercreated_orderId data,
                       reserved_items = ordercreated_items data\<rparr> s2)
                   (sendUpdates (ordercreated_items data))
      else Returned s)"

text \<open>The search loop of the cancellation handler: the first entry bound to the order.\<close>

fun findReservation :: "string \<Rightarrow> (string \<times> Reservation) list \<Rightarrow> string option" where
  "findReservation oid [] = None"
| "findReservation oid ((resId, reservation) # rest) =
     (if reservation_orderId reservation = oid then Some resId
      else findReservation oid rest)"

text \<open>
  The handler that \<^verbatim>\<open>main\<close> passes to \<^verbatim>\<open>subscribeToOrderCancelled\<close>. The test
  \<^verbatim>\<open>if (reservationId)\<close> takes the else branch for \<^verbatim>\<open>null\<close> and for the empty string;
  \<^verbatim>\<open>reservations.get(reservationId)!\<close> of an absent key is \<^verbatim>\<open>undefined\<close>, whose
  \<^verbatim>\<open>.items\<close> throws a TypeError.
\<close>

definition onOrderCancelled :: "InventoryOrderCancelled \<Rightarrow> InventoryService \<Rightarrow> InventoryService outcome" where
  "onOrderCancelled data s =
     (case findReservation (ordercancelled_orderId data) (reservations s) of
        None \<Rightarrow> Returned s
      | Some reservationId \<Rightarrow>
          if reservationId = [] then Returned s
          else
            (case map_of (reservations s) reservationId of
               None \<Rightarrow> Threw TypeError s
             | Some reservation \<Rightarrow>
                 let s1 = s\<lparr>inventoryStore :=
                               releaseInventory (reservation_items reservation) (inventoryStore s)\<rparr>;
                     s2 = s1\<lparr>reservations := AList.delete reservationId (reservations s1)\<rparr>
                 in andThen (sendInventoryReleased
                               \<lparr>released_reservationId = reservationId,
                                released_orderId = ordercancelled_orderId data,
                                released_items = reservation_items reservation\<rparr> s2)
                            (sendUpdates (reservation_items reservation))))"

text \<open>
  The loops of \<^verbatim>\<open>subscribeToOrderCreated\<close> and \<^verbatim>\<open>subscribeToOrderCancelled\<close>: each
  message goes to its handler inside \<^verbatim>\<open>try { ... } catch (err) { ... }\<close>.
\<close>

datatype InventoryMessage =
  InvOrderCreated nat InventoryOrderCreated
| InvOrderCancelled InventoryOrderCancelled

fun inventoryProcessMessage :: "InventoryService \<Rightarrow> InventoryMessage \<Rightarrow> InventoryService" where
  "inventoryProcessMessage s (InvOrderCreated now data) = stateOf (onOrderCreated now data s)"
| "inventoryProcessMessage s (InvOrderCancelled data) = stateOf (onOrderCancelled data s)"

definition inventoryProcessAll :: "InventoryService \<Rightarrow> InventoryMessage list \<Rightarrow> InventoryService" where
  "inventoryProcessAll s msgs = foldl inventoryProcessMessage s msgs"

text \<open>The catalog \<^verbatim>\<open>inventoryStore\<close> is initialised with, and the service right after \<^verbatim>\<open>connect\<close>.\<close>

definition seededStore :: "string \<rightharpoonup> int" where
  "seededStore = [''ITEM-001'' \<mapsto> 100, ''ITEM-002'' \<mapsto> 50, ''ITEM-003'' \<mapsto> 200, ''ITEM-004'' \<mapsto> 75]"

definition seededService :: InventoryService where
  "seededService = \<lparr>inv_nc = True, inventoryStore = seededStore, reservations = [], inv_published = []\<rparr>"

text \<open>
  Quantities a list of lines asks of one item, and the quantity of one item held by all
  active reservations (the words of the ledger's invariants).
\<close>

definition requested :: "InventoryItem list \<Rightarrow> string \<Rightarrow> int" where
  "requested lines i = sum_list (map quantity (filter (\<lambda>l. itemId l = i) lines))"

definition reservedTotal :: "(string \<times> Reservation) list \<Rightarrow> string \<Rightarrow> int" where
  "reservedTotal rs i = sum_list (map (\<lambda>(rid, r). requested (reservation_items r) i) rs)"

definition reservationsOf :: "string \<Rightarrow> (string \<times> Reservation) list \<Rightarrow> (string \<times> Reservation) list" where
  "reservationsOf oid rs = filter (\<lambda>(rid, r). reservation_orderId r = oid) rs"


text \<open>
  The \<^verbatim>\<open>inventory.updated\<close> messages that \<^const>\<open>sendUpdates\<close> publishes for a list of
  lines on a connected service, and the two facts every reservation table built by the
  handlers satisfies: its keys are distinct (it is a \<^verbatim>\<open>Map\<close>) and none of them is the
  empty string.
\<close>

definition updateMessages :: "InventoryItem list \<Rightarrow> (string \<rightharpoonup> int) \<Rightarrow> (string \<times> InventoryPayload) list" where
  "updateMessages lines store =
     map (\<lambda>l. (''inventory.updated'', PayloadInventoryUpdated
                  \<lparr>updated_itemId = itemId l, updated_newQuantity = getOrZero store (itemId l)\<rparr>)) lines"

definition wellFormed :: "InventoryService \<Rightarrow> bool" where
  "wellFormed s \<longleftrightarrow> distinct (map fst (reservations s)) \<and> [] \<notin> fst ` set (reservations s)"


section \<open>Example states and messages\<close>

text \<open>An order already delivered, for the orders service.\<close>

definition completedService :: OrdersService where
  "completedService = \<lparr>nc = True, orders = [''ORD-3'' \<mapsto> order3\<lparr>status := Completed\<rparr>], published = []\<rparr>"


text \<open>
  For the inventory service: the orders of Scenarios 1 and 3, an order for another item, an
  order with two lines for the same item, the ledger after Scenario 1, and two
  cancellations.
\<close>

definition order1 :: InventoryOrderCreated where
  "order1 = \<lparr>ordercreated_orderId = ''ORD-1'',
             ordercreated_items = [\<lparr>itemId = ''ITEM-001'', quantity = 10\<rparr>]\<rparr>"

definition order2 :: InventoryOrderCreated where
  "order2 = \<lparr>ordercreated_orderId = ''ORD-2'',
             ordercreated_items = [\<lparr>itemId = ''ITEM-002'', quantity = 60\<rparr>]\<rparr>"

definition order5 :: InventoryOrderCreated where
  "order5 = \<lparr>ordercreated_orderId = ''ORD-5'',
             ordercreated_items = [\<lparr>itemId = ''ITEM-003'', quantity = 2\<rparr>]\<rparr>"

definition order6 :: InventoryOrderCreated where
  "order6 = \<lparr>ordercreated_orderId = ''ORD-6'',
             ordercreated_items = [\<lparr>itemId = ''ITEM-002'', quantity = 30\<rparr>,
                                   \<lparr>itemId = ''ITEM-002'', quantity = 30\<rparr>]\<rparr>"

definition reservedService :: InventoryService where
  "reservedService =
     \<lparr>inv_nc = True,
      inventoryStore = seededStore(''ITEM-001'' \<mapsto> 90),
      reservations = [(''RES-1700000000000'',
                       \<lparr>reservation_orderId = ''ORD-1'',
                        reservation_items = [\<lparr>itemId = ''ITEM-001'', quantity = 10\<rparr>]\<rparr>)],
      inv_published = []\<rparr>"

definition cancelled1 :: InventoryOrderCancelled where
  "cancelled1 = \<lparr>ordercancelled_orderId = ''ORD-1'', ordercancelled_items = []\<rparr>"

definition cancelled9 :: InventoryOrderCancelled where
  "cancelled9 = \<lparr>ordercancelled_orderId = ''ORD-9'', ordercancelled_items = []\<rparr>"


section \<open>Inventory service: auxiliary facts\<close>

lemma checkInventoryAvailability_iff:
  "checkInventoryAvailability lines store \<longleftrightarrow>
     (\<forall>l \<in> set lines. \<not> getOrZero store (itemId l) < quantity l)"
  by (induction lines) (auto simp add: Let_def)

lemma getOrZero_upd:
  "getOrZero (store(k \<mapsto> v)) i = (if i = k then v else getOrZero store i)"
  by (simp add: getOrZero_def)

lemma requested_Cons:
  "requested (l # lines) i = (if itemId l = i then quantity l else 0) + requested lines i"
  by (simp add: requested_def)

lemma getOrZero_reserveInventory:
  "getOrZero (reserveInventory lines store) i = getOrZero store i - requested lines i"
  by (induction lines arbitrary: store) (auto simp add: Let_def getOrZero_upd requested_Cons requested_def)

lemma getOrZero_releaseInventory:
  "getOrZero (releaseInventory lines store) i = getOrZero store i + requested lines i"
  by (induction lines arbitrary: store) (auto simp add: Let_def getOrZero_upd requested_Cons requested_def)

lemma sendUpdates_connected:
  "inv_nc s \<Longrightarrow> sendUpdates lines s =
     Returned (s\<lparr>inv_published := inv_published s @ updateMessages lines (inventoryStore s)\<rparr>)"
  by (induction lines arbitrary: s) (simp_all add: sendInventoryUpdated_def updateMessages_def)

lemma sendUpdates_disconnected:
  "\<not> inv_nc s \<Longrightarrow> sendUpdates lines s = (if lines = [] then Returned s else Threw NotConnected s)"
  by (cases lines) (simp_all add: sendInventoryUpdated_def)

lemma sendUpdates_frame:
  "inventoryStore (stateOf (sendUpdates lines s)) = inventoryStore s \<and>
   reservations (stateOf (sendUpdates lines s)) = reservations s \<and>
   inv_nc (stateOf (sendUpdates lines s)) = inv_nc s"
  by (cases "inv_nc s") (simp_all add: sendUpdates_connected sendUpdates_disconnected)

lemma digitChar_inj: "a < 10 \<Longrightarrow> b < 10 \<Longrightarrow> digitChar a = digitChar b \<Longrightarrow> a = b"
proof -
  assume a: "a < 10" and b: "b < 10" and e: "digitChar a = digitChar b"
  have d: "distinct ''0123456789''" by simp
  have "a < length ''0123456789''" "b < length ''0123456789''" using a b by simp_all
  with d e show "a = b" unfolding digitChar_def by (simp only: nth_eq_iff_index_eq)
qed

lemma numberToString_nonempty: "numberToString n \<noteq> []"
  by (subst numberToString.simps) simp

lemma numberToString_inj: "numberToString a = numberToString b \<Longrightarrow> a = b"
proof (induction a arbitrary: b rule: numberToString.induct)
  case (1 n)
  show ?case
  proof (cases "n < 10")
    case True
    then have n: "numberToString n = [digitChar n]" by (subst numberToString.simps) simp
    show ?thesis
    proof (cases "b < 10")
      case b: True
      then have "numberToString b = [digitChar b]" by (subst numberToString.simps) simp
      with n "1.prems" have "digitChar n = digitChar b" by simp
      with True b show ?thesis by (rule digitChar_inj)
    next
      case False
      then have "numberToString b = numberToString (b div 10) @ [digitChar (b mod 10)]"
        by (subst numberToString.simps) simp
      with n "1.prems" have "numberToString (b div 10) = []" by simp
      then show ?thesis by (simp add: numberToString_nonempty)
    qed
  next
    case False
    then have n: "numberToString n = numberToString (n div 10) @ [digitChar (n mod 10)]"
      by (subst numberToString.simps) simp
    show ?thesis
    proof (cases "b < 10")
      case True
      then have "numberToString b = [digitChar b]" by (subst numberToString.simps) simp
      with n "1.prems" have "numberToString (n div 10) = []" by simp
      then show ?thesis by (simp add: numberToString_nonempty)
    next
      case b: False
      then have "numberToString b = numberToString (b div 10) @ [digitChar (b mod 10)]"
        by (subst numberToString.simps) simp
      with n "1.prems" have e: "numberToString (n div 10) = numberToString (b div 10)"
        and d: "digitChar (n mod 10) = digitChar (b mod 10)" by simp_all
      from "1.IH" [OF False e] have q: "n div 10 = b div 10" .
      have "n mod 10 = b mod 10" by (rule digitChar_inj [OF _ _ d]) simp_all
      with q show ?thesis by (metis div_mult_mod_eq)
    qed
  qed
qed

lemma makeReservationId_inj: "makeReservationId a = makeReservationId b \<longleftrightarrow> a = b"
  by (auto simp add: makeReservationId_def dest: numberToString_inj)

lemma makeReservationId_nonempty: "makeReservationId now \<noteq> []"
  by (simp add: makeReservationId_def)

lemma findReservation_None:
  "findReservation oid rs = None \<longleftrightarrow> (\<forall>(rid, r) \<in> set rs. reservation_orderId r \<noteq> oid)"
  by (induction rs) (auto split: if_splits)

lemma findReservation_Some:
  "findReservation oid rs = Some rid \<Longrightarrow>
     \<exists>r. (rid, r) \<in> set rs \<and> reservation_orderId r = oid"
  by (induction rs) (auto split: if_splits)

lemma onOrderCreated_passed:
  assumes "checkInventoryAvailability (ordercreated_items data) (inventoryStore s)"
  shows "inventoryStore (stateOf (onOrderCreated now data s)) =
           reserveInventory (ordercreated_items data) (inventoryStore s)"
    and "reservations (stateOf (onOrderCreated now data s)) =
           AList.update (makeReservationId now)
             \<lparr>reservation_orderId = ordercreated_orderId data,
              reservation_items = ordercreated_items data\<rparr> (reservations s)"
    and "inv_nc (stateOf (onOrderCreated now data s)) = inv_nc s"
  using assms
  by (cases "inv_nc s"; simp add: onOrderCreated_def Let_def sendInventoryReserved_def sendUpdates_frame)+

lemma onOrderCreated_failed:
  "\<not> checkInventoryAvailability (ordercreated_items data) (inventoryStore s) \<Longrightarrow>
     onOrderCreated now data s = Returned s"
  by (simp add: onOrderCreated_def)

lemma seeded_values:
  "getOrZero (inventoryStore seededService) ''ITEM-001'' = 100"
  "getOrZero (inventoryStore seededService) ''ITEM-002'' = 50"
  by (simp_all add: seededService_def seededStore_def getOrZero_def)

lemma onOrderCancelled_found:
  assumes "findReservation (ordercancelled_orderId data) (reservations s) = Some rid"
    and "rid \<noteq> []" and "map_of (reservations s) rid = Some r"
  shows "inventoryStore (stateOf (onOrderCancelled data s)) =
           releaseInventory (reservation_items r) (inventoryStore s)"
    and "reservations (stateOf (onOrderCancelled data s)) = AList.delete rid (reservations s)"
    and "inv_nc (stateOf (onOrderCancelled data s)) = inv_nc s"
    and "inv_nc s \<Longrightarrow> onOrderCancelled data s =
           Returned (s\<lparr>inventoryStore := releaseInventory (reservation_items r) (inventoryStore s),
                       reservations := AList.delete rid (reservations s),
                       inv_published := inv_published s @
                         (''inventory.released'', PayloadInventoryReleased
                            \<lparr>released_reservationId = rid,
                             released_orderId = ordercancelled_orderId data,
                             released_items = reservation_items r\<rparr>) #
                         updateMessages (reservation_items r)
                           (releaseInventory (reservation_items r) (inventoryStore s))\<rparr>)"
  using assms
  by (cases "inv_nc s"; simp add: onOrderCancelled_def Let_def sendInventoryReleased_def
        sendUpdates_frame sendUpdates_connected)+

lemma onOrderCancelled_not_found:
  "findReservation (ordercancelled_orderId data) (reservations s) = None \<Longrightarrow>
     onOrderCancelled data s = Returned s"
  by (simp add: onOrderCancelled_def)

lemma onOrderCancelled_reservations:
  "reservations (stateOf (onOrderCancelled data s)) = reservations s \<or>
   (\<exists>rid. reservations (stateOf (onOrderCancelled data s)) = AList.delete rid (reservations s))"
proof (cases "findReservation (ordercancelled_orderId data) (reservations s)")
  case None
  then show ?thesis by (simp add: onOrderCancelled_not_found)
next
  case (Some rid)
  show ?thesis
  proof (cases "rid = [] \<or> map_of (reservations s) rid = None")
    case True
    with Some show ?thesis by (auto simp add: onOrderCancelled_def)
  next
    case False
    then obtain r where "rid \<noteq> []" "map_of (reservations s) rid = Some r" by auto
    with Some show ?thesis by (auto simp add: onOrderCancelled_found(2))
  qed
qed

lemma wellFormed_onOrderCreated: "wellFormed s \<Longrightarrow> wellFormed (stateOf (onOrderCreated now data s))"
proof (cases "checkInventoryAvailability (ordercreated_items data) (inventoryStore s)")
  case True
  assume "wellFormed s"
  then show ?thesis
    unfolding wellFormed_def onOrderCreated_passed(2) [OF True]
    by (simp add: distinct_update dom_update makeReservationId_nonempty [symmetric])
next
  case False
  assume "wellFormed s"
  with False show ?thesis by (simp add: onOrderCreated_failed)
qed

lemma wellFormed_onOrderCancelled: "wellFormed s \<Longrightarrow> wellFormed (stateOf (onOrderCancelled data s))"
proof -
  assume w: "wellFormed s"
  have d: "\<And>rid. wellFormed (s\<lparr>reservations := AList.delete rid (reservations s)\<rparr>)"
    using w dom_delete_subset [of _ "reservations s"]
    by (auto simp add: wellFormed_def distinct_delete)
  from onOrderCancelled_reservations [of data s] show ?thesis
  proof
    assume "reservations (stateOf (onOrderCancelled data s)) = reservations s"
    with w show ?thesis by (simp add: wellFormed_def)
  next
    assume "\<exists>rid. reservations (stateOf (onOrderCancelled data s)) = AList.delete rid (reservations s)"
    then obtain rid where "reservations (stateOf (onOrderCancelled data s)) = AList.delete rid (reservations s)" ..
    with d [of rid] show ?thesis by (simp add: wellFormed_def)
  qed
qed

lemma wellFormed_inventoryProcessAll:
  "wellFormed s \<Longrightarrow> wellFormed (inventoryProcessAll s msgs)"
  unfolding inventoryProcessAll_def
proof (induction msgs arbitrary: s)
  case Nil
  then show ?case by simp
next
  case (Cons m msgs)
  from Cons.prems have "wellFormed (inventoryProcessMessage s m)"
    by (cases m) (simp_all add: wellFormed_onOrderCreated wellFormed_onOrderCancelled)
  then show ?case by (simp add: Cons.IH)
qed

lemma wellFormed_seededService: "wellFormed seededService"
  by (simp add: wellFormed_def seededService_def)

lemma delete_distinct_set:
  "distinct (map fst rs) \<Longrightarrow> (rid, r) \<in> set rs \<Longrightarrow>
     set (AList.delete rid rs) = set rs - {(rid, r)}"
  by (auto simp add: AList.delete_eq dest: eq_key_imp_eq_value)


text \<open>
  Where the ledger's invariants are kept: a reservation made under an id not yet in the
  table, and any release on a well-formed table, leave stock plus reserved quantity of
  every item as it was; a reservation whose lines name pairwise different items leaves no
  item below zero.
\<close>

lemma reservedTotal_append:
  "reservedTotal (rs @ [(k, v)]) i = reservedTotal rs i + requested (reservation_items v) i"
  by (simp add: reservedTotal_def)

lemma update_fresh: "k \<notin> fst ` set rs \<Longrightarrow> AList.update k v rs = rs @ [(k, v)]"
  by (induction rs) auto

lemma reservedTotal_delete:
  "distinct (map fst rs) \<Longrightarrow> (rid, r) \<in> set rs \<Longrightarrow>
     reservedTotal (AList.delete rid rs) i = reservedTotal rs i - requested (reservation_items r) i"
proof (induction rs)
  case Nil
  then show ?case by simp
next
  case (Cons p rs)
  show ?case
  proof (cases "fst p = rid")
    case True
    with Cons.prems have "p = (rid, r)" and "rid \<notin> fst ` set rs"
      by (auto simp add: image_iff)
    then show ?thesis by (simp add: reservedTotal_def)
  next
    case False
    with Cons show ?thesis by (auto simp add: reservedTotal_def)
  qed
qed

lemma conservation_onOrderCreated:
  assumes "makeReservationId now \<notin> fst ` set (reservations s)"
  shows "getOrZero (inventoryStore (stateOf (onOrderCreated now data s))) i +
           reservedTotal (reservations (stateOf (onOrderCreated now data s))) i =
         getOrZero (inventoryStore s) i + reservedTotal (reservations s) i"
proof (cases "checkInventoryAvailability (ordercreated_items data) (inventoryStore s)")
  case True
  show ?thesis
    by (simp add: onOrderCreated_passed(1,2) [OF True] update_fresh [OF assms]
          reservedTotal_append getOrZero_reserveInventory)
next
  case False
  then show ?thesis by (simp add: onOrderCreated_failed)
qed

lemma conservation_onOrderCancelled:
  assumes "wellFormed s"
  shows "getOrZero (inventoryStore (stateOf (onOrderCancelled data s))) i +
           reservedTotal (reservations (stateOf (onOrderCancelled data s))) i =
         getOrZero (inventoryStore s) i + reservedTotal (reservations s) i"
proof (cases "findReservation (ordercancelled_orderId data) (reservations s)")
  case None
  then show ?thesis by (simp add: onOrderCancelled_not_found)
next
  case (Some rid)
  from findReservation_Some [OF Some] obtain r where m: "(rid, r) \<in> set (reservations s)"
    by auto
  from assms have dist: "distinct (map fst (reservations s))"
    and ne: "[] \<notin> fst ` set (reservations s)"
    by (simp_all add: wellFormed_def)
  from m ne have rid: "rid \<noteq> []" by force
  from dist m have g: "map_of (reservations s) rid = Some r" by simp
  show ?thesis
    by (simp add: onOrderCancelled_found(1,2) [OF Some rid g] getOrZero_releaseInventory
          reservedTotal_delete [OF dist m])
qed

lemma nonnegative_onOrderCreated:
  assumes "distinct (map itemId (ordercreated_items data))"
    and "0 \<le> getOrZero (inventoryStore s) i"
  shows "0 \<le> getOrZero (inventoryStore (stateOf (onOrderCreated now data s))) i"
proof (cases "checkInventoryAvailability (ordercreated_items data) (inventoryStore s)")
  case True
  have one: "\<And>lines. distinct (map itemId lines) \<Longrightarrow>
               requested lines i = 0 \<or> (\<exists>l \<in> set lines. itemId l = i \<and> requested lines i = quantity l)"
  proof -
    fix lines :: "InventoryItem list"
    show "distinct (map itemId lines) \<Longrightarrow>
               requested lines i = 0 \<or> (\<exists>l \<in> set lines. itemId l = i \<and> requested lines i = quantity l)"
    proof (induction lines)
      case Nil
      then show ?case by (simp add: requested_def)
    next
      case (Cons l lines)
      show ?case
      proof (cases "itemId l = i")
        case True
        with Cons.prems have "\<forall>x \<in> set lines. itemId x \<noteq> i" by (auto simp add: image_iff)
        then have "filter (\<lambda>x. itemId x = i) lines = []" by (simp add: filter_empty_conv)
        then have "requested lines i = 0" by (simp add: requested_def)
        with True show ?thesis by (simp add: requested_Cons)
      next
        case False
        with Cons show ?thesis by (auto simp add: requested_Cons)
      qed
    qed
  qed
  from True have le: "\<forall>l \<in> set (ordercreated_items data).
      quantity l \<le> getOrZero (inventoryStore s) (itemId l)"
    by (simp add: checkInventoryAvailability_iff not_less)
  from one [OF assms(1)] le assms(2)
  have "requested (ordercreated_items data) i \<le> getOrZero (inventoryStore s) i"
    by auto
  then show ?thesis
    by (simp add: onOrderCreated_passed(1) [OF True] getOrZero_reserveInventory)
next
  case False
  with assms(2) show ?thesis by (simp add: onOrderCreated_failed)
qed

section \<open>Orders service: properties\<close>

text \<open>
  C1. Once an order is Cancelled or Completed no later event changes it. The source breaks
  this: \<^verbatim>\<open>handlePaymentFailed\<close> tests only for \<^verbatim>\<open>'cancelled'\<close>, so a payment failure
  that arrives after the delivery of the same order turns the Completed order into a
  Cancelled one and publishes \<^verbatim>\<open>order.cancelled\<close> after \<^verbatim>\<open>order.completed\<close>. The run
  below is that input.
\<close>

theorem handlePaymentFailed_on_completed:
  "map_option status
     (orders (processAll connectedService
        [MsgOrderCreated 1700000000000 created3,
         MsgShipmentDelivered ''2024-01-02T08:30:00.000Z'' delivered3]) ''ORD-3'') = Some Completed
   \<and> map_option status
     (orders (processAll connectedService
        [MsgOrderCreated 1700000000000 created3,
         MsgShipmentDelivered ''2024-01-02T08:30:00.000Z'' delivered3,
         MsgPaymentFailed failed3]) ''ORD-3'') = Some Cancelled
   \<and> published (processAll connectedService
        [MsgOrderCreated 1700000000000 created3,
         MsgShipmentDelivered ''2024-01-02T08:30:00.000Z'' delivered3,
         MsgPaymentFailed failed3]) =
      [(''order.completed'', PayloadOrderCompleted
          \<lparr>completed_orderId = ''ORD-3'', completed_completionTime = ''2024-01-02T08:30:00.000Z''\<rparr>),
       (''order.cancelled'', PayloadOrderCancelled
          \<lparr>cancelled_orderId = ''ORD-3'', cancelled_reason = ''Payment failed: card declined''\<rparr>)]"
  by (simp add: processAll_def connectedService_def created3_def delivered3_def failed3_def
        handleOrderCreated_def handleShipmentDelivered_def handlePaymentFailed_def
        sendOrderCancelled_def sendOrderCompleted_def)


text \<open>
  C2, as stated, at a concrete input. The same \<^verbatim>\<open>order.created\<close> message delivered twice
  to the inventory service, one millisecond apart, leaves two reservations bound to
  ORD-1 and takes the ten units of ITEM-001 twice.
\<close>

theorem duplicate_created_reserves_twice:
  "length (reservationsOf ''ORD-1'' (reservations (inventoryProcessAll seededService
      [InvOrderCreated 1700000000000 order1, InvOrderCreated 1700000000001 order1]))) = 2
   \<and> getOrZero (inventoryStore (inventoryProcessAll seededService
      [InvOrderCreated 1700000000000 order1, InvOrderCreated 1700000000001 order1])) ''ITEM-001'' = 80"
  by (simp add: inventoryProcessAll_def onOrderCreated_def seededService_def seededStore_def getOrZero_def
        makeReservationId_def numberToString.simps digitChar_def Let_def
        sendInventoryReserved_def sendInventoryUpdated_def
        order1_def reservationsOf_def)


text \<open>
  C2, amended. A second \<^verbatim>\<open>OrderCreated\<close> with the orderId of the first leaves the orders
  service as the first left it, holding the one record made from the first message. The
  inventory service has no duplicate suppression: when the stock passes the check both
  times and the two clock readings differ, the repeated message decrements every item a
  second time and a second reservation record, under its own id, is bound to the same
  order.
\<close>

theorem duplicate_order_created:
  "(created_orderId d2 = created_orderId d1 \<longrightarrow>
      handleOrderCreated t2 d2 (stateOf (handleOrderCreated t1 d1 s)) =
        Returned (stateOf (handleOrderCreated t1 d1 s)))
   \<and> (created_orderId d1 \<notin> dom (orders s) \<longrightarrow>
      orders (stateOf (handleOrderCreated t1 d1 s)) (created_orderId d1) =
        Some \<lparr>orderId = created_orderId d1, userId = created_userId d1,
              totalAmount = created_totalAmount d1, items = created_items d1,
              status = Pending, createdAt = t1\<rparr>)
   \<and> (checkInventoryAvailability (ordercreated_items data) (inventoryStore ledger) \<and>
      checkInventoryAvailability (ordercreated_items data)
        (inventoryStore (stateOf (onOrderCreated u1 data ledger))) \<and> u1 \<noteq> u2 \<longrightarrow>
      (\<forall>i. getOrZero (inventoryStore
               (stateOf (onOrderCreated u2 data (stateOf (onOrderCreated u1 data ledger))))) i =
            getOrZero (inventoryStore ledger) i - 2 * requested (ordercreated_items data) i)
      \<and> makeReservationId u1 \<noteq> makeReservationId u2
      \<and> map_of (reservations
               (stateOf (onOrderCreated u2 data (stateOf (onOrderCreated u1 data ledger)))))
           (makeReservationId u1) =
          Some \<lparr>reservation_orderId = ordercreated_orderId data,
                reservation_items = ordercreated_items data\<rparr>
      \<and> map_of (reservations
               (stateOf (onOrderCreated u2 data (stateOf (onOrderCreated u1 data ledger)))))
           (makeReservationId u2) =
          Some \<lparr>reservation_orderId = ordercreated_orderId data,
                reservation_items = ordercreated_items data\<rparr>)"
proof (intro conjI impI)
  assume "created_orderId d2 = created_orderId d1"
  then show "handleOrderCreated t2 d2 (stateOf (handleOrderCreated t1 d1 s)) =
        Returned (stateOf (handleOrderCreated t1 d1 s))"
    by (simp add: handleOrderCreated_def)
next
  assume "created_orderId d1 \<notin> dom (orders s)"
  then show "orders (stateOf (handleOrderCreated t1 d1 s)) (created_orderId d1) =
        Some \<lparr>orderId = created_orderId d1, userId = created_userId d1,
              totalAmount = created_totalAmount d1, items = created_items d1,
              status = Pending, createdAt = t1\<rparr>"
    by (simp add: handleOrderCreated_def)
next
  assume h: "checkInventoryAvailability (ordercreated_items data) (inventoryStore ledger) \<and>
      checkInventoryAvailability (ordercreated_items data)
        (inventoryStore (stateOf (onOrderCreated u1 data ledger))) \<and> u1 \<noteq> u2"
  then have c1: "checkInventoryAvailability (ordercreated_items data) (inventoryStore ledger)"
    and c2: "checkInventoryAvailability (ordercreated_items data)
        (inventoryStore (stateOf (onOrderCreated u1 data ledger)))"
    and ne: "u1 \<noteq> u2" by simp_all
  note first = onOrderCreated_passed [OF c1, of u1]
  note second = onOrderCreated_passed [OF c2, of u2]
  show "\<forall>i. getOrZero (inventoryStore
               (stateOf (onOrderCreated u2 data (stateOf (onOrderCreated u1 data ledger))))) i =
            getOrZero (inventoryStore ledger) i - 2 * requested (ordercreated_items data) i"
    by (simp add: second(1) first(1) getOrZero_reserveInventory)
  show ids: "makeReservationId u1 \<noteq> makeReservationId u2"
    using ne by (simp add: makeReservationId_inj)
  show "map_of (reservations
               (stateOf (onOrderCreated u2 data (stateOf (onOrderCreated u1 data ledger)))))
           (makeReservationId u1) =
          Some \<lparr>reservation_orderId = ordercreated_orderId data,
                reservation_items = ordercreated_items data\<rparr>"
    using ids by (simp add: second(2) first(2) update_conv')
  show "map_of (reservations
               (stateOf (onOrderCreated u2 data (stateOf (onOrderCreated u1 data ledger)))))
           (makeReservationId u2) =
          Some \<lparr>reservation_orderId = ordercreated_orderId data,
                reservation_items = ordercreated_items data\<rparr>"
    by (simp add: second(2) update_conv')
qed


theorem duplicate_order_created_witness:
  "handleOrderCreated 1700000000500 created3 (stateOf (handleOrderCreated 1700000000000 created3 connectedService)) =
     Returned (stateOf (handleOrderCreated 1700000000000 created3 connectedService))
   \<and> orders (stateOf (handleOrderCreated 1700000000000 created3 connectedService)) ''ORD-3'' = Some order3
   \<and> getOrZero (inventoryStore (stateOf (onOrderCreated 1700000000001 order1
         (stateOf (onOrderCreated 1700000000000 order1 seededService))))) ''ITEM-001'' = 80
   \<and> map_of (reservations (stateOf (onOrderCreated 1700000000001 order1
         (stateOf (onOrderCreated 1700000000000 order1 seededService))))) ''RES-1700000000000'' =
       Some \<lparr>reservation_orderId = ''ORD-1'',
             reservation_items = [\<lparr>itemId = ''ITEM-001'', quantity = 10\<rparr>]\<rparr>
   \<and> map_of (reservations (stateOf (onOrderCreated 1700000000001 order1
         (stateOf (onOrderCreated 1700000000000 order1 seededService))))) ''RES-1700000000001'' =
       Some \<lparr>reservation_orderId = ''ORD-1'',
             reservation_items = [\<lparr>itemId = ''ITEM-001'', quantity = 10\<rparr>]\<rparr>"
proof -
  note inst = duplicate_order_created [of created3 created3 1700000000500 1700000000000 connectedService
      order1 seededService 1700000000000 1700000000001]
  have fresh: "created_orderId created3 \<notin> dom (orders connectedService)"
    by (simp add: connectedService_def)
  have c1: "checkInventoryAvailability (ordercreated_items order1) (inventoryStore seededService)"
    by (simp add: order1_def seededService_def seededStore_def getOrZero_def)
  have c2: "checkInventoryAvailability (ordercreated_items order1)
        (inventoryStore (stateOf (onOrderCreated 1700000000000 order1 seededService)))"
    by (simp add: checkInventoryAvailability_iff onOrderCreated_passed(1) [OF c1]
          getOrZero_reserveInventory)
       (simp add: order1_def seededService_def seededStore_def getOrZero_def requested_def)
  have ne: "(1700000000000::nat) \<noteq> 1700000000001" by simp
  have ids: "makeReservationId 1700000000000 = ''RES-1700000000000''"
    "makeReservationId 1700000000001 = ''RES-1700000000001''"
    by (simp_all add: makeReservationId_def numberToString.simps digitChar_def)
  have q: "getOrZero (inventoryStore seededService) ''ITEM-001'' = 100"
    "requested (ordercreated_items order1) ''ITEM-001'' = 10"
    by (simp_all add: order1_def seededService_def seededStore_def getOrZero_def requested_def)
  from inst have a: "handleOrderCreated 1700000000500 created3 (stateOf (handleOrderCreated 1700000000000 created3 connectedService)) =
     Returned (stateOf (handleOrderCreated 1700000000000 created3 connectedService))"
    by blast
  from inst fresh have b: "orders (stateOf (handleOrderCreated 1700000000000 created3 connectedService)) ''ORD-3'' = Some order3"
    by (simp add: created3_def order3_def)
  from inst c1 c2 ne have c: "getOrZero (inventoryStore (stateOf (onOrderCreated 1700000000001 order1
         (stateOf (onOrderCreated 1700000000000 order1 seededService))))) ''ITEM-001'' =
       getOrZero (inventoryStore seededService) ''ITEM-001'' - 2 * requested (ordercreated_items order1) ''ITEM-001''"
    by blast
  from inst c1 c2 ne have d: "map_of (reservations (stateOf (onOrderCreated 1700000000001 order1
         (stateOf (onOrderCreated 1700000000000 order1 seededService))))) (makeReservationId 1700000000000) =
       Some \<lparr>reservation_orderId = ordercreated_orderId order1,
             reservation_items = ordercreated_items order1\<rparr>"
    and e: "map_of (reservations (stateOf (onOrderCreated 1700000000001 order1
         (stateOf (onOrderCreated 1700000000000 order1 seededService))))) (makeReservationId 1700000000001) =
       Some \<lparr>reservation_orderId = ordercreated_orderId order1,
             reservation_items = ordercreated_items order1\<rparr>"
    by blast+
  from c have c': "getOrZero (inventoryStore (stateOf (onOrderCreated 1700000000001 order1
         (stateOf (onOrderCreated 1700000000000 order1 seededService))))) ''ITEM-001'' = 80"
    by (simp add: q)
  from d have d': "map_of (reservations (stateOf (onOrderCreated 1700000000001 order1
         (stateOf (onOrderCreated 1700000000000 order1 seededService))))) ''RES-1700000000000'' =
       Some \<lparr>reservation_orderId = ''ORD-1'',
             reservation_items = [\<lparr>itemId = ''ITEM-001'', quantity = 10\<rparr>]\<rparr>"
    by (simp add: ids order1_def)
  from e have e': "map_of (reservations (stateOf (onOrderCreated 1700000000001 order1
         (stateOf (onOrderCreated 1700000000000 order1 seededService))))) ''RES-1700000000001'' =
       Some \<lparr>reservation_orderId = ''ORD-1'',
             reservation_items = [\<lparr>itemId = ''ITEM-001'', quantity = 10\<rparr>]\<rparr>"
    by (simp add: ids order1_def)
  from a b c' d' e' show ?thesis
    by simp
qed


text \<open>
  C6. \<^verbatim>\<open>handleShipmentDelivered\<close> on an existing Pending order (of a connected service)
  sets it to Completed and publishes \<^verbatim>\<open>order.completed\<close> whose completionTime is the
  clock value read while the event is processed; the deliveryTime of the message has no
  influence on the outcome. On an unknown, Cancelled or Completed order it returns with
  the service unchanged.
\<close>

theorem handleShipmentDelivered_spec:
  "(nc s \<and> orders s (delivered_orderId data) = Some order \<and> status order = Pending \<longrightarrow>
      handleShipmentDelivered nowISO data s =
        Returned (s\<lparr>published := published s @
                      [(''order.completed'', PayloadOrderCompleted
                          \<lparr>completed_orderId = delivered_orderId data,
                           completed_completionTime = nowISO\<rparr>)],
                    orders := (orders s)(delivered_orderId data \<mapsto> order\<lparr>status := Completed\<rparr>)\<rparr>))
   \<and> (orders s (delivered_orderId data) = None \<or>
        (\<exists>order. orders s (delivered_orderId data) = Some order \<and>
                  (status order = Cancelled \<or> status order = Completed)) \<longrightarrow>
      handleShipmentDelivered nowISO data s = Returned s)
   \<and> handleShipmentDelivered nowISO (data\<lparr>delivered_deliveryTime := t\<rparr>) s =
       handleShipmentDelivered nowISO data s"
  by (auto simp add: handleShipmentDelivered_def sendOrderCompleted_def split: option.splits)


theorem handleShipmentDelivered_spec_witness:
  "handleShipmentDelivered ''2024-01-02T08:30:00.000Z'' delivered3 pendingService =
     Returned \<lparr>nc = True,
               orders = [''ORD-3'' \<mapsto> order3\<lparr>status := Completed\<rparr>],
               published = [(''order.completed'', PayloadOrderCompleted
                    \<lparr>completed_orderId = ''ORD-3'',
                     completed_completionTime = ''2024-01-02T08:30:00.000Z''\<rparr>)]\<rparr>
   \<and> handleShipmentDelivered ''2024-01-02T08:30:00.000Z'' delivered3 completedService =
       Returned completedService"
proof -
  have h1: "nc pendingService \<and> orders pendingService (delivered_orderId delivered3) = Some order3
            \<and> status order3 = Pending"
    by (simp add: pendingService_def delivered3_def order3_def)
  have h2: "\<exists>order. orders completedService (delivered_orderId delivered3) = Some order \<and>
                  (status order = Cancelled \<or> status order = Completed)"
    by (simp add: completedService_def delivered3_def)
  from h1 handleShipmentDelivered_spec [of pendingService delivered3 order3 "''2024-01-02T08:30:00.000Z''"]
  have a: "handleShipmentDelivered ''2024-01-02T08:30:00.000Z'' delivered3 pendingService =
        Returned (pendingService\<lparr>published := published pendingService @
                      [(''order.completed'', PayloadOrderCompleted
                          \<lparr>completed_orderId = delivered_orderId delivered3,
                           completed_completionTime = ''2024-01-02T08:30:00.000Z''\<rparr>)],
                    orders := (orders pendingService)(delivered_orderId delivered3 \<mapsto> order3\<lparr>status := Completed\<rparr>)\<rparr>)"
    by blast
  from h2 handleShipmentDelivered_spec [of completedService delivered3 _ "''2024-01-02T08:30:00.000Z''"]
  have b: "handleShipmentDelivered ''2024-01-02T08:30:00.000Z'' delivered3 completedService =
       Returned completedService"
    by blast
  show ?thesis
    unfolding b unfolding a by (simp add: pendingService_def delivered3_def)
qed


text \<open>
  C7. \<^verbatim>\<open>handlePaymentFailed\<close> on an existing order whose status is Pending (the handler
  runs on a connected service) sets that order's status to Cancelled and publishes on
  \<^verbatim>\<open>order.cancelled\<close> one message for that orderId whose reason is the string
  "Payment failed: " followed by the incoming failureReason.
\<close>

theorem handlePaymentFailed_pending:
  assumes "nc s" and "orders s (failed_orderId data) = Some order" and "status order = Pending"
  shows "handlePaymentFailed data s =
           Returned (s\<lparr>published := published s @
                         [(''order.cancelled'', PayloadOrderCancelled
                             \<lparr>cancelled_orderId = failed_orderId data,
                              cancelled_reason = ''Payment failed: '' @ failed_failureReason data\<rparr>)],
                       orders := (orders s)(failed_orderId data \<mapsto> order\<lparr>status := Cancelled\<rparr>)\<rparr>)"
  using assms by (simp add: handlePaymentFailed_def sendOrderCancelled_def)

theorem handlePaymentFailed_pending_witness:
  "nc pendingService \<and> orders pendingService (failed_orderId failed3) = Some order3 \<and>
   status order3 = Pending \<and>
   handlePaymentFailed failed3 pendingService =
     Returned \<lparr>nc = True,
               orders = [''ORD-3'' \<mapsto> order3\<lparr>status := Cancelled\<rparr>],
               published = [(''order.cancelled'', PayloadOrderCancelled
                    \<lparr>cancelled_orderId = ''ORD-3'',
                     cancelled_reason = ''Payment failed: card declined''\<rparr>)]\<rparr>"
proof -
  have h1: "nc pendingService"
    by (simp add: pendingService_def)
  have h2: "orders pendingService (failed_orderId failed3) = Some order3"
    by (simp add: pendingService_def failed3_def)
  have h3: "status order3 = Pending"
    by (simp add: order3_def)
  show ?thesis
    using h1 h2 h3 handlePaymentFailed_pending [OF h1 h2 h3]
    by (simp add: pendingService_def failed3_def)
qed


text \<open>
  C9, as stated, at a concrete input. \<^verbatim>\<open>cancelOrder\<close> has return type \<^verbatim>\<open>void\<close>: for an
  unknown order and for a Completed order the call returns normally, with the service
  exactly as it was, which is the outcome of a call that did nothing. No error value
  reaches the caller.
\<close>

theorem cancelOrder_reports_nothing:
  "cancelOrder ''ORD-404'' ''operator request'' connectedService = Returned connectedService
   \<and> cancelOrder ''ORD-3'' ''operator request'' completedService = Returned completedService"
  by (simp add: cancelOrder_def connectedService_def completedService_def)


text \<open>
  C9, amended. \<^verbatim>\<open>cancelOrder\<close> on an unknown, Cancelled or Completed order returns
  normally and leaves the service unchanged (nothing is published, nothing is handed
  back to the caller). On an existing order that is neither Cancelled nor Completed, on
  a connected service, it sets the status to Cancelled and publishes
  \<^verbatim>\<open>order.cancelled\<close> with the given reason.
\<close>

theorem cancelOrder_amended:
  "(orders s oid = None \<or>
      (\<exists>order. orders s oid = Some order \<and> (status order = Cancelled \<or> status order = Completed)) \<longrightarrow>
      cancelOrder oid reason s = Returned s)
   \<and> (nc s \<and> orders s oid = Some order \<and> status order \<noteq> Cancelled \<and> status order \<noteq> Completed \<longrightarrow>
      cancelOrder oid reason s =
        Returned (s\<lparr>published := published s @
                      [(''order.cancelled'', PayloadOrderCancelled
                          \<lparr>cancelled_orderId = oid, cancelled_reason = reason\<rparr>)],
                    orders := (orders s)(oid \<mapsto> order\<lparr>status := Cancelled\<rparr>)\<rparr>))"
  by (auto simp add: cancelOrder_def sendOrderCancelled_def)


theorem cancelOrder_amended_witness:
  "cancelOrder ''ORD-3'' ''operator request'' pendingService =
     Returned \<lparr>nc = True,
               orders = [''ORD-3'' \<mapsto> order3\<lparr>status := Cancelled\<rparr>],
               published = [(''order.cancelled'', PayloadOrderCancelled
                    \<lparr>cancelled_orderId = ''ORD-3'', cancelled_reason = ''operator request''\<rparr>)]\<rparr>
   \<and> cancelOrder ''ORD-404'' ''operator request'' pendingService = Returned pendingService"
proof -
  have h1: "nc pendingService \<and> orders pendingService ''ORD-3'' = Some order3 \<and>
            status order3 \<noteq> Cancelled \<and> status order3 \<noteq> Completed"
    by (simp add: pendingService_def order3_def)
  have h2: "orders pendingService ''ORD-404'' = None"
    by (simp add: pendingService_def)
  from h1 cancelOrder_amended [of pendingService "''ORD-3''" "''operator request''" order3]
  have a: "cancelOrder ''ORD-3'' ''operator request'' pendingService =
        Returned (pendingService\<lparr>published := published pendingService @
                      [(''order.cancelled'', PayloadOrderCancelled
                          \<lparr>cancelled_orderId = ''ORD-3'', cancelled_reason = ''operator request''\<rparr>)],
                    orders := (orders pendingService)(''ORD-3'' \<mapsto> order3\<lparr>status := Cancelled\<rparr>)\<rparr>)"
    by blast
  from h2 cancelOrder_amended [of pendingService "''ORD-404''" "''operator request''"]
  have b: "cancelOrder ''ORD-404'' ''operator request'' pendingService = Returned pendingService"
    by blast
  show ?thesis
    unfolding b unfolding a by (simp add: pendingService_def)
qed


text \<open>
  C10. Frame of the two event handlers: whatever \<^verbatim>\<open>handlePaymentFailed\<close> or
  \<^verbatim>\<open>handleShipmentDelivered\<close> does, every order under another key is untouched, no order
  appears or disappears, and the order of the event keeps its orderId, userId,
  totalAmount, items and createdAt; only its status can differ.
\<close>

theorem terminal_transition_frame:
  assumes "s' = stateOf (handlePaymentFailed pf s) \<and> oid = failed_orderId pf
           \<or> s' = stateOf (handleShipmentDelivered nowISO sd s) \<and> oid = delivered_orderId sd"
  shows "(\<forall>k. k \<noteq> oid \<longrightarrow> orders s' k = orders s k)
       \<and> (orders s oid = None \<longrightarrow> orders s' oid = None)
       \<and> (\<forall>order. orders s oid = Some order \<longrightarrow>
            (\<exists>order'. orders s' oid = Some order' \<and>
               orderId order' = orderId order \<and> userId order' = userId order \<and>
               totalAmount order' = totalAmount order \<and> items order' = items order \<and>
               createdAt order' = createdAt order))"
  using assms
  by (auto simp add: handlePaymentFailed_def handleShipmentDelivered_def
        sendOrderCancelled_def sendOrderCompleted_def split: option.splits)


theorem terminal_transition_frame_witness:
  "orders (stateOf (handlePaymentFailed failed3 pendingService)) ''ORD-4'' = None
   \<and> (\<exists>order'. orders (stateOf (handlePaymentFailed failed3 pendingService)) ''ORD-3'' = Some order' \<and>
         orderId order' = ''ORD-3'' \<and> userId order' = ''U1'' \<and> totalAmount order' = 85 / 2 \<and>
         items order' = [] \<and> createdAt order' = 1700000000000)"
proof -
  have h: "stateOf (handlePaymentFailed failed3 pendingService) =
             stateOf (handlePaymentFailed failed3 pendingService) \<and> ''ORD-3'' = failed_orderId failed3"
    by (simp add: failed3_def)
  have o: "orders pendingService ''ORD-3'' = Some order3" "orders pendingService ''ORD-4'' = None"
    by (simp_all add: pendingService_def)
  from terminal_transition_frame [OF disjI1, OF h] o
  have "orders (stateOf (handlePaymentFailed failed3 pendingService)) ''ORD-4'' = None"
    and "\<exists>order'. orders (stateOf (handlePaymentFailed failed3 pendingService)) ''ORD-3'' = Some order' \<and>
               orderId order' = orderId order3 \<and> userId order' = userId order3 \<and>
               totalAmount order' = totalAmount order3 \<and> items order' = items order3 \<and>
               createdAt order' = createdAt order3"
    by simp_all
  then show ?thesis by (simp add: order3_def)
qed


section \<open>Inventory service: properties\<close>

text \<open>
  C3. The order-created handler is all-or-nothing. If some requested line asks for more
  than the stock read for its item, the handler returns with the whole service unchanged:
  no stock decremented, no reservation stored, nothing published. If every line passes,
  each item's stock goes down by exactly the quantities requested of it and a reservation
  bound to the orderId, holding the requested lines, is stored under the generated id.
\<close>

theorem reservation_all_or_nothing:
  "((\<exists>l \<in> set (ordercreated_items data). getOrZero (inventoryStore s) (itemId l) < quantity l) \<longrightarrow>
      onOrderCreated now data s = Returned s)
   \<and> ((\<forall>l \<in> set (ordercreated_items data). quantity l \<le> getOrZero (inventoryStore s) (itemId l)) \<longrightarrow>
      (\<forall>i. getOrZero (inventoryStore (stateOf (onOrderCreated now data s))) i =
            getOrZero (inventoryStore s) i - requested (ordercreated_items data) i)
      \<and> map_of (reservations (stateOf (onOrderCreated now data s))) (makeReservationId now) =
          Some \<lparr>reservation_orderId = ordercreated_orderId data,
                reservation_items = ordercreated_items data\<rparr>)"
proof (intro conjI impI)
  assume "\<exists>l \<in> set (ordercreated_items data). getOrZero (inventoryStore s) (itemId l) < quantity l"
  then have "\<not> checkInventoryAvailability (ordercreated_items data) (inventoryStore s)"
    by (simp add: checkInventoryAvailability_iff)
  then show "onOrderCreated now data s = Returned s"
    by (rule onOrderCreated_failed)
next
  assume "\<forall>l \<in> set (ordercreated_items data). quantity l \<le> getOrZero (inventoryStore s) (itemId l)"
  then have ok: "checkInventoryAvailability (ordercreated_items data) (inventoryStore s)"
    by (simp add: checkInventoryAvailability_iff not_less)
  show "\<forall>i. getOrZero (inventoryStore (stateOf (onOrderCreated now data s))) i =
            getOrZero (inventoryStore s) i - requested (ordercreated_items data) i"
    by (simp add: onOrderCreated_passed(1) [OF ok] getOrZero_reserveInventory)
  show "map_of (reservations (stateOf (onOrderCreated now data s))) (makeReservationId now) =
          Some \<lparr>reservation_orderId = ordercreated_orderId data,
                reservation_items = ordercreated_items data\<rparr>"
    by (simp add: onOrderCreated_passed(2) [OF ok] update_conv')
qed


theorem reservation_all_or_nothing_witness:
  "onOrderCreated 1700000000000 order2 seededService = Returned seededService
   \<and> getOrZero (inventoryStore (stateOf (onOrderCreated 1700000000000 order1 seededService))) ''ITEM-001'' = 90
   \<and> getOrZero (inventoryStore (stateOf (onOrderCreated 1700000000000 order1 seededService))) ''ITEM-002'' = 50
   \<and> map_of (reservations (stateOf (onOrderCreated 1700000000000 order1 seededService))) ''RES-1700000000000'' =
       Some \<lparr>reservation_orderId = ''ORD-1'',
             reservation_items = [\<lparr>itemId = ''ITEM-001'', quantity = 10\<rparr>]\<rparr>"
proof -
  have short: "\<exists>l \<in> set (ordercreated_items order2).
                 getOrZero (inventoryStore seededService) (itemId l) < quantity l"
    by (simp add: order2_def seeded_values)
  have enough: "\<forall>l \<in> set (ordercreated_items order1).
                 quantity l \<le> getOrZero (inventoryStore seededService) (itemId l)"
    by (simp add: order1_def seeded_values)
  have id: "makeReservationId 1700000000000 = ''RES-1700000000000''"
    by (simp add: makeReservationId_def numberToString.simps digitChar_def)
  from short reservation_all_or_nothing [of order2 seededService 1700000000000]
  have a: "onOrderCreated 1700000000000 order2 seededService = Returned seededService"
    by blast
  from enough reservation_all_or_nothing [of order1 seededService 1700000000000]
  have b: "(\<forall>i. getOrZero (inventoryStore (stateOf (onOrderCreated 1700000000000 order1 seededService))) i =
            getOrZero (inventoryStore seededService) i - requested (ordercreated_items order1) i)
      \<and> map_of (reservations (stateOf (onOrderCreated 1700000000000 order1 seededService))) (makeReservationId 1700000000000) =
          Some \<lparr>reservation_orderId = ordercreated_orderId order1,
                reservation_items = ordercreated_items order1\<rparr>"
    by blast
  have r: "requested (ordercreated_items order1) ''ITEM-001'' = 10"
          "requested (ordercreated_items order1) ''ITEM-002'' = 0"
    by (simp_all add: order1_def requested_def)
  from b have c: "getOrZero (inventoryStore (stateOf (onOrderCreated 1700000000000 order1 seededService))) ''ITEM-001'' = 90"
    "getOrZero (inventoryStore (stateOf (onOrderCreated 1700000000000 order1 seededService))) ''ITEM-002'' = 50"
    by (simp_all add: r seeded_values)
  from b have d: "map_of (reservations (stateOf (onOrderCreated 1700000000000 order1 seededService))) ''RES-1700000000000'' =
       Some \<lparr>reservation_orderId = ''ORD-1'',
             reservation_items = [\<lparr>itemId = ''ITEM-001'', quantity = 10\<rparr>]\<rparr>"
    by (simp add: id order1_def)
  from a c d show ?thesis
    by simp
qed


text \<open>
  C4. With every line asking for at least one unit, stock should never go below zero and
  stock plus active reservations should stay at the seeded quantity. The source breaks
  both. Each line is checked against the stock on its own, so two lines of 30 for
  ITEM-002 (seeded with 50) both pass and leave -10. And two orders reserved within the
  same millisecond get the same reservation id, the second record replaces the first,
  and ITEM-001 is left with 90 in stock and nothing reserved, against 100 seeded.
\<close>

theorem ledger_invariant_broken:
  "map quantity (ordercreated_items order6) = [30, 30]
   \<and> getOrZero (inventoryStore (inventoryProcessAll seededService
        [InvOrderCreated 1700000000000 order6])) ''ITEM-002'' = - 10
   \<and> getOrZero (inventoryStore (inventoryProcessAll seededService
        [InvOrderCreated 1700000000000 order1, InvOrderCreated 1700000000000 order5])) ''ITEM-001''
      + reservedTotal (reservations (inventoryProcessAll seededService
        [InvOrderCreated 1700000000000 order1, InvOrderCreated 1700000000000 order5])) ''ITEM-001'' = 90
   \<and> getOrZero seededStore ''ITEM-001'' = 100"
  by (simp add: inventoryProcessAll_def onOrderCreated_def seededService_def seededStore_def getOrZero_def
        makeReservationId_def numberToString.simps digitChar_def Let_def
        sendInventoryReserved_def sendInventoryUpdated_def
        order1_def order5_def order6_def reservedTotal_def requested_def)


text \<open>
  C5. The order-cancelled handler on a well-formed reservation table. With no reservation
  bound to the orderId the search finds nothing and the handler returns with the whole
  service unchanged (no stock change, no table change, nothing published). Otherwise the
  first reservation bound to the order is found, every item's stock goes up by the
  quantities that reservation held, exactly that record leaves the table, and on a
  connected service the handler publishes \<^verbatim>\<open>inventory.released\<close> carrying the freed
  lines, followed by one \<^verbatim>\<open>inventory.updated\<close> per line.
\<close>

theorem release_spec:
  assumes "wellFormed s"
  shows
   "((\<forall>(rid, r) \<in> set (reservations s). reservation_orderId r \<noteq> ordercancelled_orderId data) \<longrightarrow>
       findReservation (ordercancelled_orderId data) (reservations s) = None \<and>
       onOrderCancelled data s = Returned s)
    \<and> ((\<exists>(rid, r) \<in> set (reservations s). reservation_orderId r = ordercancelled_orderId data) \<longrightarrow>
       (\<exists>rid r. findReservation (ordercancelled_orderId data) (reservations s) = Some rid \<and>
          (rid, r) \<in> set (reservations s) \<and>
          reservation_orderId r = ordercancelled_orderId data \<and>
          (\<forall>i. getOrZero (inventoryStore (stateOf (onOrderCancelled data s))) i =
                getOrZero (inventoryStore s) i + requested (reservation_items r) i) \<and>
          set (reservations (stateOf (onOrderCancelled data s))) = set (reservations s) - {(rid, r)} \<and>
          (inv_nc s \<longrightarrow>
             (\<exists>s'. onOrderCancelled data s = Returned s' \<and>
                inv_published s' = inv_published s @
                  (''inventory.released'', PayloadInventoryReleased
                     \<lparr>released_reservationId = rid,
                      released_orderId = ordercancelled_orderId data,
                      released_items = reservation_items r\<rparr>) #
                  updateMessages (reservation_items r) (inventoryStore s')))))"
proof (intro conjI impI)
  assume "\<forall>(rid, r) \<in> set (reservations s). reservation_orderId r \<noteq> ordercancelled_orderId data"
  then show "findReservation (ordercancelled_orderId data) (reservations s) = None"
    by (simp add: findReservation_None)
  then show "onOrderCancelled data s = Returned s"
    by (rule onOrderCancelled_not_found)
next
  assume "\<exists>(rid, r) \<in> set (reservations s). reservation_orderId r = ordercancelled_orderId data"
  then have "findReservation (ordercancelled_orderId data) (reservations s) \<noteq> None"
    by (auto simp add: findReservation_None)
  then obtain rid where f: "findReservation (ordercancelled_orderId data) (reservations s) = Some rid"
    by auto
  from findReservation_Some [OF f] obtain r
    where m: "(rid, r) \<in> set (reservations s)"
      and o: "reservation_orderId r = ordercancelled_orderId data"
    by auto
  from assms have dist: "distinct (map fst (reservations s))"
    and ne: "[] \<notin> fst ` set (reservations s)"
    by (simp_all add: wellFormed_def)
  from m ne have rid: "rid \<noteq> []" by force
  from dist m have g: "map_of (reservations s) rid = Some r" by simp
  note found = onOrderCancelled_found [OF f rid g]
  have store: "\<forall>i. getOrZero (inventoryStore (stateOf (onOrderCancelled data s))) i =
                getOrZero (inventoryStore s) i + requested (reservation_items r) i"
    by (simp add: found(1) getOrZero_releaseInventory)
  have table: "set (reservations (stateOf (onOrderCancelled data s))) = set (reservations s) - {(rid, r)}"
    by (simp add: found(2) delete_distinct_set [OF dist m])
  have pub: "inv_nc s \<longrightarrow>
             (\<exists>s'. onOrderCancelled data s = Returned s' \<and>
                inv_published s' = inv_published s @
                  (''inventory.released'', PayloadInventoryReleased
                     \<lparr>released_reservationId = rid,
                      released_orderId = ordercancelled_orderId data,
                      released_items = reservation_items r\<rparr>) #
                  updateMessages (reservation_items r) (inventoryStore s'))"
    by (simp add: found(4))
  from f m o store table pub
  show "\<exists>rid r. findReservation (ordercancelled_orderId data) (reservations s) = Some rid \<and>
          (rid, r) \<in> set (reservations s) \<and>
          reservation_orderId r = ordercancelled_orderId data \<and>
          (\<forall>i. getOrZero (inventoryStore (stateOf (onOrderCancelled data s))) i =
                getOrZero (inventoryStore s) i + requested (reservation_items r) i) \<and>
          set (reservations (stateOf (onOrderCancelled data s))) = set (reservations s) - {(rid, r)} \<and>
          (inv_nc s \<longrightarrow>
             (\<exists>s'. onOrderCancelled data s = Returned s' \<and>
                inv_published s' = inv_published s @
                  (''inventory.released'', PayloadInventoryReleased
                     \<lparr>released_reservationId = rid,
                      released_orderId = ordercancelled_orderId data,
                      released_items = reservation_items r\<rparr>) #
                  updateMessages (reservation_items r) (inventoryStore s')))"
    by blast
qed


theorem release_spec_witness:
  "wellFormed reservedService
   \<and> onOrderCancelled cancelled9 reservedService = Returned reservedService
   \<and> getOrZero (inventoryStore (stateOf (onOrderCancelled cancelled1 reservedService))) ''ITEM-001'' = 100
   \<and> set (reservations (stateOf (onOrderCancelled cancelled1 reservedService))) = {}
   \<and> (\<exists>s'. onOrderCancelled cancelled1 reservedService = Returned s' \<and>
         inv_published s' =
           (''inventory.released'', PayloadInventoryReleased
              \<lparr>released_reservationId = ''RES-1700000000000'', released_orderId = ''ORD-1'',
               released_items = [\<lparr>itemId = ''ITEM-001'', quantity = 10\<rparr>]\<rparr>) #
           updateMessages [\<lparr>itemId = ''ITEM-001'', quantity = 10\<rparr>] (inventoryStore s'))"
proof -
  let ?r = "\<lparr>reservation_orderId = ''ORD-1'',
             reservation_items = [\<lparr>itemId = ''ITEM-001'', quantity = 10\<rparr>]\<rparr>"
  have w: "wellFormed reservedService"
    by (simp add: wellFormed_def reservedService_def)
  have rs: "reservations reservedService = [(''RES-1700000000000'', ?r)]"
    by (simp add: reservedService_def)
  have none: "\<forall>(rid, r) \<in> set (reservations reservedService).
                reservation_orderId r \<noteq> ordercancelled_orderId cancelled9"
    by (simp add: rs cancelled9_def)
  have some: "\<exists>(rid, r) \<in> set (reservations reservedService).
                reservation_orderId r = ordercancelled_orderId cancelled1"
    by (simp add: rs cancelled1_def)
  from none release_spec [OF w, of cancelled9]
  have a: "onOrderCancelled cancelled9 reservedService = Returned reservedService"
    by blast
  from some release_spec [OF w, of cancelled1]
  obtain rid r where m: "(rid, r) \<in> set (reservations reservedService)"
    and store: "\<forall>i. getOrZero (inventoryStore (stateOf (onOrderCancelled cancelled1 reservedService))) i =
                getOrZero (inventoryStore reservedService) i + requested (reservation_items r) i"
    and table: "set (reservations (stateOf (onOrderCancelled cancelled1 reservedService))) =
                  set (reservations reservedService) - {(rid, r)}"
    and pub: "inv_nc reservedService \<longrightarrow>
             (\<exists>s'. onOrderCancelled cancelled1 reservedService = Returned s' \<and>
                inv_published s' = inv_published reservedService @
                  (''inventory.released'', PayloadInventoryReleased
                     \<lparr>released_reservationId = rid,
                      released_orderId = ordercancelled_orderId cancelled1,
                      released_items = reservation_items r\<rparr>) #
                  updateMessages (reservation_items r) (inventoryStore s'))"
    by blast
  from m have rid: "rid = ''RES-1700000000000''" and r: "r = ?r"
    by (simp_all add: rs)
  have q: "getOrZero (inventoryStore reservedService) ''ITEM-001'' = 90"
    "requested [\<lparr>itemId = ''ITEM-001'', quantity = 10\<rparr>] ''ITEM-001'' = 10"
    by (simp_all add: reservedService_def getOrZero_def requested_def)
  from store have b: "getOrZero (inventoryStore (stateOf (onOrderCancelled cancelled1 reservedService))) ''ITEM-001'' = 100"
    unfolding r by (simp add: q)
  from table have c: "set (reservations (stateOf (onOrderCancelled cancelled1 reservedService))) = {}"
    unfolding r rid by (simp add: rs)
  from pub have d: "\<exists>s'. onOrderCancelled cancelled1 reservedService = Returned s' \<and>
         inv_published s' =
           (''inventory.released'', PayloadInventoryReleased
              \<lparr>released_reservationId = ''RES-1700000000000'', released_orderId = ''ORD-1'',
               released_items = [\<lparr>itemId = ''ITEM-001'', quantity = 10\<rparr>]\<rparr>) #
           updateMessages [\<lparr>itemId = ''ITEM-001'', quantity = 10\<rparr>] (inventoryStore s')"
    unfolding r rid by (simp add: reservedService_def cancelled1_def)
  from w a b c d show ?thesis by blast
qed


text \<open>
  C8. Every successful reservation should get a fresh id and never overwrite a stored
  record. The id is \<^verbatim>\<open>RES-\<close> followed by the millisecond clock, so two orders reserved
  within the same millisecond get the same id: the record of ORD-1 is replaced by the
  record of ORD-5 and both \<^verbatim>\<open>inventory.reserved\<close> messages carry the same reservationId.
\<close>

theorem same_millisecond_ids_collide:
  "reservations (inventoryProcessAll seededService
      [InvOrderCreated 1700000000000 order1, InvOrderCreated 1700000000000 order5]) =
     [(''RES-1700000000000'',
       \<lparr>reservation_orderId = ''ORD-5'',
        reservation_items = [\<lparr>itemId = ''ITEM-003'', quantity = 2\<rparr>]\<rparr>)]
   \<and> inv_published (inventoryProcessAll seededService
      [InvOrderCreated 1700000000000 order1, InvOrderCreated 1700000000000 order5]) =
     [(''inventory.reserved'', PayloadInventoryReserved
         \<lparr>reserved_reservationId = ''RES-1700000000000'', reserved_orderId = ''ORD-1'',
          reserved_items = [\<lparr>itemId = ''ITEM-001'', quantity = 10\<rparr>]\<rparr>),
      (''inventory.updated'', PayloadInventoryUpdated
         \<lparr>updated_itemId = ''ITEM-001'', updated_newQuantity = 90\<rparr>),
      (''inventory.reserved'', PayloadInventoryReserved
         \<lparr>reserved_reservationId = ''RES-1700000000000'', reserved_orderId = ''ORD-5'',
          reserved_items = [\<lparr>itemId = ''ITEM-003'', quantity = 2\<rparr>]\<rparr>),
      (''inventory.updated'', PayloadInventoryUpdated
         \<lparr>updated_itemId = ''ITEM-003'', updated_newQuantity = 198\<rparr>)]"
  by (simp add: inventoryProcessAll_def onOrderCreated_def seededService_def seededStore_def getOrZero_def
        makeReservationId_def numberToString.simps digitChar_def Let_def
        sendInventoryReserved_def sendInventoryUpdated_def
        order1_def order5_def)


end
